theory Spec2Isabelle
  imports Complex_Main
begin

section \<open>Conventions of the embedding\<close>

text \<open>
  The three modules verified here are \<^verbatim>\<open>src/risk_limits.py\<close> (class RiskManager),
  \<^verbatim>\<open>src/backtest_engine.py\<close> (class BacktestEngine) and two static methods of
  \<^verbatim>\<open>src/indicators.py\<close> (calculate_rsi, identify_support_resistance).

  Numbers. A finite Python or numpy float is modelled by the real number it stands
  for: arithmetic is exact, so rounding, overflow and the sign of zero are outside the
  model. What is inside the model is every place where the source divides:
  \<^item> a division of two Python floats raises ZeroDivisionError when the divisor is
    zero; such a function returns \<open>error + 'a\<close>, with \<open>Inl\<close> for the exception;
  \<^item> a division of two pandas Series never raises; it yields an infinity or NaN,
    and NaN is also pandas' marker for a missing value. Series elements are values
    of the type \<open>npfloat\<close> below.
\<close>

datatype error = ZeroDivisionError | ValueError | IndexError

definition py_div :: "real \<Rightarrow> real \<Rightarrow> error + real" where
  "py_div a b = (if b = 0 then Inl ZeroDivisionError else Inr (a / b))"

section \<open>Risk manager (src/risk_limits.py)\<close>

text \<open>
  A position is the dict stored by add_position; the risk state is the attributes
  set by \<^verbatim>\<open>__init__\<close>; the position table is a dict keyed by symbol.
\<close>

record position =
  entry_price :: real
  quantity :: real
  stop_loss :: real
  take_profit :: real

record risk_state =
  max_daily_loss :: real
  max_position_size :: real
  max_leverage :: real
  current_loss :: real
  positions :: "string \<rightharpoonup> position"

text \<open>The dict returned by close_position for a position that was open.\<close>

record closed_trade =
  symbol :: string
  pnl :: real
  pnl_pct :: real
  closed_quantity :: real

definition risk_manager_init :: "real \<Rightarrow> real \<Rightarrow> real \<Rightarrow> risk_state" where
  "risk_manager_init mdl mps ml =
     \<lparr>max_daily_loss = mdl, max_position_size = mps, max_leverage = ml,
      current_loss = 0, positions = Map.empty\<rparr>"

text \<open>The constructor with its default arguments 0.05, 0.1 and 1.0.\<close>

definition risk_manager_default :: risk_state where
  "risk_manager_default = risk_manager_init (5 / 100) (1 / 10) 1"

text \<open>
  calculate_position_size reads the state and does not change it. The quotient
  \<^verbatim>\<open>risk_amount / stop_loss_pct\<close> is a Python float division.
\<close>

definition calculate_position_size :: "risk_state \<Rightarrow> real \<Rightarrow> real \<Rightarrow> real \<Rightarrow> error + real" where
  "calculate_position_size s account_balance risk_per_trade stop_loss_pct =
     (let risk_amount = account_balance * risk_per_trade in
      case py_div risk_amount stop_loss_pct of
        Inl e \<Rightarrow> Inl e
      | Inr position_size \<Rightarrow>
          (let max_position = account_balance * max_position_size s
           in Inr (min position_size max_position)))"

definition can_open_position :: "risk_state \<Rightarrow> string \<Rightarrow> real \<Rightarrow> real \<Rightarrow> bool" where
  "can_open_position s smb position_size account_balance =
     (if current_loss s \<ge> account_balance * max_daily_loss s then False
      else if position_size > account_balance * max_position_size s then False
      else True)"

definition add_position :: "risk_state \<Rightarrow> string \<Rightarrow> real \<Rightarrow> real \<Rightarrow> real \<Rightarrow> risk_state" where
  "add_position s smb entry qty sl =
     s\<lparr>positions := (positions s)(smb \<mapsto>
         \<lparr>entry_price = entry, quantity = qty, stop_loss = sl,
          take_profit = entry * (105 / 100)\<rparr>)\<rparr>"

definition check_stop_loss :: "risk_state \<Rightarrow> string \<Rightarrow> real \<Rightarrow> bool" where
  "check_stop_loss s smb current_price =
     (case positions s smb of
        None \<Rightarrow> False
      | Some pos \<Rightarrow> if current_price \<le> stop_loss pos then True else False)"

definition check_take_profit :: "risk_state \<Rightarrow> string \<Rightarrow> real \<Rightarrow> bool" where
  "check_take_profit s smb current_price =
     (case positions s smb of
        None \<Rightarrow> False
      | Some pos \<Rightarrow> if current_price \<ge> take_profit pos then True else False)"

text \<open>
  close_position returns the result dict (\<open>None\<close> for the empty dict) and the new
  state. The percentage is a Python float division by the entry price, evaluated
  before anything is written, so an exception leaves the object as it was.
\<close>

definition close_position ::
  "risk_state \<Rightarrow> string \<Rightarrow> real \<Rightarrow> error + (closed_trade option \<times> risk_state)" where
  "close_position s smb exit_price =
     (case positions s smb of
        None \<Rightarrow> Inr (None, s)
      | Some pos \<Rightarrow>
          (let p = (exit_price - entry_price pos) * quantity pos in
           case py_div (exit_price - entry_price pos) (entry_price pos) of
             Inl e \<Rightarrow> Inl e
           | Inr q \<Rightarrow>
               (let s1 = (if p < 0 then s\<lparr>current_loss := current_loss s + \<bar>p\<bar>\<rparr> else s);
                    result = \<lparr>symbol = smb, pnl = p, pnl_pct = q * 100,
                              closed_quantity = quantity pos\<rparr>
                in Inr (Some result, s1\<lparr>positions := (positions s1)(smb := None)\<rparr>))))"

text \<open>
  The public operations of a RiskManager, as calls with their arguments, and the
  state an instance is in after one call: the four queries leave it alone, and a
  call that raises leaves it as it was.
\<close>

datatype risk_op =
    Calculate_position_size real real real
  | Can_open_position string real real
  | Add_position string real real real
  | Check_stop_loss string real
  | Check_take_profit string real
  | Close_position string real

fun risk_step :: "risk_state \<Rightarrow> risk_op \<Rightarrow> risk_state" where
  "risk_step s (Calculate_position_size b r sl) = s"
| "risk_step s (Can_open_position smb sz b) = s"
| "risk_step s (Add_position smb e q sl) = add_position s smb e q sl"
| "risk_step s (Check_stop_loss smb p) = s"
| "risk_step s (Check_take_profit smb p) = s"
| "risk_step s (Close_position smb p) =
     (case close_position s smb p of Inl e \<Rightarrow> s | Inr (r, s') \<Rightarrow> s')"

text \<open>The states an instance passes through under a sequence of calls, oldest first.\<close>

fun risk_trace :: "risk_state \<Rightarrow> risk_op list \<Rightarrow> risk_state list" where
  "risk_trace s [] = [s]"
| "risk_trace s (x # xs) = s # risk_trace (risk_step s x) xs"

section \<open>Backtest engine (src/backtest_engine.py)\<close>

text \<open>
  A frame of candles is the list of its rows. The frames this repository builds
  (get_klines, load_ohlcv) keep the timestamp as a column and carry the default
  index 0, 1, 2, ..., so the label \<^verbatim>\<open>idx\<close> that iterrows yields is the position
  of the row, and \<^verbatim>\<open>df.iloc[:idx+1]\<close> is the prefix of the first idx + 1 rows.
  A row of such a frame mixes a timestamp with numbers, so \<^verbatim>\<open>row['close']\<close> is a
  Python float and the division \<^verbatim>\<open>balance/row['close']\<close> raises on zero.

  The strategy is any function from the prefix to a string; every answer other
  than 'BUY' and 'SELL' takes neither branch of the loop body.
\<close>

record candle =
  timestamp :: int
  open_price :: real
  high :: real
  low :: real
  close :: real
  volume :: real

text \<open>The dict held in the local variable \<^verbatim>\<open>position\<close> while a position is open.\<close>

record bt_position =
  entry :: real
  size_pos :: real

type_synonym bt_state = "real \<times> bt_position option \<times> real list"

record report =
  final_balance :: real
  total_return :: real
  trades :: nat
  win_rate :: real

text \<open>One pass through the loop body, on (balance, position, trades).\<close>

definition bt_step ::
  "candle list \<Rightarrow> (candle list \<Rightarrow> string) \<Rightarrow> nat \<Rightarrow> candle \<Rightarrow> bt_state \<Rightarrow> error + bt_state" where
  "bt_step df strategy_func idx row st =
     (case st of (balance, pos, ts) \<Rightarrow>
        (let signal = strategy_func (take (idx + 1) df) in
         if signal = ''BUY'' \<and> pos = None then
           (case py_div balance (close row) of
              Inl e \<Rightarrow> Inl e
            | Inr sz \<Rightarrow> Inr (balance, Some \<lparr>entry = close row, size_pos = sz\<rparr>, ts))
         else
           (case pos of
              Some p \<Rightarrow>
                if signal = ''SELL'' then
                  (let pnl = (close row - entry p) * size_pos p
                   in Inr (balance + pnl, None, ts @ [pnl]))
                else Inr st
            | None \<Rightarrow> Inr st)))"

text \<open>The loop over \<^verbatim>\<open>df.iterrows()\<close>: the rows still to visit, the first at label idx.\<close>

fun backtest_loop ::
  "candle list \<Rightarrow> (candle list \<Rightarrow> string) \<Rightarrow> nat \<Rightarrow> candle list \<Rightarrow> bt_state \<Rightarrow> error + bt_state" where
  "backtest_loop df strategy_func idx [] st = Inr st"
| "backtest_loop df strategy_func idx (row # rows) st =
     (case bt_step df strategy_func idx row st of
        Inl e \<Rightarrow> Inl e
      | Inr st' \<Rightarrow> backtest_loop df strategy_func (Suc idx) rows st')"

text \<open>
  The win rate of the report: a Python division of two list lengths, taken only
  when the trade list is not empty.
\<close>

definition win_rate_of :: "real list \<Rightarrow> error + real" where
  "win_rate_of ts =
     (if ts \<noteq> [] then py_div (real (length (filter (\<lambda>t. t > 0) ts))) (real (length ts))
      else Inr 0)"

definition run_backtest ::
  "real \<Rightarrow> candle list \<Rightarrow> (candle list \<Rightarrow> string) \<Rightarrow> error + report" where
  "run_backtest initial_capital df strategy_func =
     (case backtest_loop df strategy_func 0 df (initial_capital, None, []) of
        Inl e \<Rightarrow> Inl e
      | Inr (balance, pos, ts) \<Rightarrow>
          (case py_div (balance - initial_capital) initial_capital of
             Inl e \<Rightarrow> Inl e
           | Inr q \<Rightarrow>
               (case win_rate_of ts of
                  Inl e \<Rightarrow> Inl e
                | Inr w \<Rightarrow>
                    Inr \<lparr>final_balance = balance, total_return = q * 100,
                         trades = length ts, win_rate = w\<rparr>)))"

section \<open>Series values (numpy float64 inside a pandas Series)\<close>

text \<open>
  A Series element is a finite number, an infinity or NaN. Arithmetic on finite
  values is exact; the special values follow IEEE 754, which is what numpy
  computes: anything with NaN is NaN, a non-zero finite number divided by zero is
  an infinity, zero divided by zero is NaN, a finite number divided by an infinity
  is zero. Zero is taken as positive zero.
\<close>

datatype npfloat = Fin real | PInf | NInf | NaN

fun np_neg :: "npfloat \<Rightarrow> npfloat" where
  "np_neg (Fin a) = Fin (- a)"
| "np_neg PInf = NInf"
| "np_neg NInf = PInf"
| "np_neg NaN = NaN"

fun np_add :: "npfloat \<Rightarrow> npfloat \<Rightarrow> npfloat" where
  "np_add NaN y = NaN"
| "np_add x NaN = NaN"
| "np_add (Fin a) (Fin b) = Fin (a + b)"
| "np_add (Fin a) PInf = PInf"
| "np_add (Fin a) NInf = NInf"
| "np_add PInf (Fin b) = PInf"
| "np_add NInf (Fin b) = NInf"
| "np_add PInf PInf = PInf"
| "np_add NInf NInf = NInf"
| "np_add PInf NInf = NaN"
| "np_add NInf PInf = NaN"

definition np_sub :: "npfloat \<Rightarrow> npfloat \<Rightarrow> npfloat" where
  "np_sub x y = np_add x (np_neg y)"

fun np_div :: "npfloat \<Rightarrow> npfloat \<Rightarrow> npfloat" where
  "np_div NaN y = NaN"
| "np_div x NaN = NaN"
| "np_div (Fin a) (Fin b) =
     (if b \<noteq> 0 then Fin (a / b)
      else if a = 0 then NaN else if 0 < a then PInf else NInf)"
| "np_div (Fin a) PInf = Fin 0"
| "np_div (Fin a) NInf = Fin 0"
| "np_div PInf (Fin b) = (if 0 \<le> b then PInf else NInf)"
| "np_div NInf (Fin b) = (if 0 \<le> b then NInf else PInf)"
| "np_div PInf PInf = NaN"
| "np_div PInf NInf = NaN"
| "np_div NInf PInf = NaN"
| "np_div NInf NInf = NaN"

text \<open>Comparisons: every comparison with NaN is false.\<close>

fun np_lt :: "npfloat \<Rightarrow> npfloat \<Rightarrow> bool" where
  "np_lt NaN y = False"
| "np_lt x NaN = False"
| "np_lt (Fin a) (Fin b) = (a < b)"
| "np_lt (Fin a) PInf = True"
| "np_lt (Fin a) NInf = False"
| "np_lt PInf y = False"
| "np_lt NInf (Fin b) = True"
| "np_lt NInf PInf = True"
| "np_lt NInf NInf = False"

definition np_gt :: "npfloat \<Rightarrow> npfloat \<Rightarrow> bool" where
  "np_gt x y = np_lt y x"

fun np_eq :: "npfloat \<Rightarrow> npfloat \<Rightarrow> bool" where
  "np_eq NaN y = False"
| "np_eq x NaN = False"
| "np_eq x y = (x = y)"

fun np_sum :: "npfloat list \<Rightarrow> npfloat" where
  "np_sum [] = Fin 0"
| "np_sum (x # xs) = np_add x (np_sum xs)"

section \<open>Indicators (src/indicators.py)\<close>

text \<open>
  A price series is the list of its values, all finite. \<^verbatim>\<open>Series.diff()\<close> has NaN in
  its first place and the successive differences after it.
\<close>

fun series_diff :: "real list \<Rightarrow> npfloat list" where
  "series_diff [] = []"
| "series_diff (p # ps) = NaN # map (\<lambda>(a, b). Fin (b - a)) (zip (p # ps) ps)"

text \<open>
  \<^verbatim>\<open>s.rolling(window=w).mean()\<close> with the default min_periods = w: the mean of the
  w values ending at position i, and NaN where fewer than w values are there, where
  one of them is NaN, or where w is 0.
\<close>

definition rolling_mean :: "nat \<Rightarrow> npfloat list \<Rightarrow> npfloat list" where
  "rolling_mean w xs =
     map (\<lambda>i. if 0 < w \<and> w \<le> i + 1
               then np_div (np_sum (take w (drop (i + 1 - w) xs))) (Fin (real w))
               else NaN)
         [0..<length xs]"

text \<open>\<^verbatim>\<open>delta.where(delta > 0, 0)\<close> and \<^verbatim>\<open>-delta.where(delta < 0, 0)\<close>.\<close>

definition gain_raw :: "real list \<Rightarrow> npfloat list" where
  "gain_raw prices = map (\<lambda>d. if np_gt d (Fin 0) then d else Fin 0) (series_diff prices)"

definition loss_raw :: "real list \<Rightarrow> npfloat list" where
  "loss_raw prices =
     map np_neg (map (\<lambda>d. if np_lt d (Fin 0) then d else Fin 0) (series_diff prices))"

definition rsi_gain :: "real list \<Rightarrow> nat \<Rightarrow> npfloat list" where
  "rsi_gain prices w = rolling_mean w (gain_raw prices)"

definition rsi_loss :: "real list \<Rightarrow> nat \<Rightarrow> npfloat list" where
  "rsi_loss prices w = rolling_mean w (loss_raw prices)"

text \<open>A negative window makes \<^verbatim>\<open>rolling\<close> raise ValueError.\<close>

definition calculate_rsi :: "real list \<Rightarrow> int \<Rightarrow> error + npfloat list" where
  "calculate_rsi prices period =
     (if period < 0 then Inl ValueError
      else
        (let gain = rsi_gain prices (nat period);
             loss = rsi_loss prices (nat period);
             rs = map (\<lambda>(g, l). np_div g l) (zip gain loss);
             rsi = map (\<lambda>r. np_sub (Fin 100) (np_div (Fin 100) (np_add (Fin 1) r))) rs
         in Inr rsi))"

text \<open>
  \<^verbatim>\<open>Series.min()\<close> and \<^verbatim>\<open>Series.max()\<close> of a slice of finite values: NaN for the empty
  slice.
\<close>

fun series_min :: "real list \<Rightarrow> npfloat" where
  "series_min [] = NaN"
| "series_min (x # xs) = Fin (fold min xs x)"

fun series_max :: "real list \<Rightarrow> npfloat" where
  "series_max [] = NaN"
| "series_max (x # xs) = Fin (fold max xs x)"

text \<open>
  One pass through the loop body of identify_support_resistance at index i, for a
  window w with w \<le> i and i + w < len(prices): the slice
  \<^verbatim>\<open>prices.iloc[i-window:i+window]\<close> holds the 2w values at positions i - w, ..., i + w - 1.
\<close>

definition sr_step ::
  "real list \<Rightarrow> nat \<Rightarrow> nat \<Rightarrow> (nat \<times> real) list \<times> (nat \<times> real) list
     \<Rightarrow> (nat \<times> real) list \<times> (nat \<times> real) list" where
  "sr_step prices w i acc =
     (case acc of (support, resistance) \<Rightarrow>
        (let sl = take (2 * w) (drop (i - w) prices);
             support' = (if np_eq (Fin (prices ! i)) (series_min sl)
                         then support @ [(i, prices ! i)] else support);
             resistance' = (if np_eq (Fin (prices ! i)) (series_max sl)
                            then resistance @ [(i, prices ! i)] else resistance)
         in (support', resistance')))"

text \<open>
  With a negative window the range runs up to an index past the end of the
  series, and \<^verbatim>\<open>prices.iloc[i]\<close> raises IndexError there.
\<close>

definition identify_support_resistance ::
  "real list \<Rightarrow> int \<Rightarrow> error + ((nat \<times> real) list \<times> (nat \<times> real) list)" where
  "identify_support_resistance prices window =
     (if window < 0 then Inl IndexError
      else Inr (fold (sr_step prices (nat window))
                  [nat window ..< length prices - nat window] ([], [])))"







text \<open>Sample frames and strategies, used to instantiate the theorems below.\<close>

definition flat_candle :: "int \<Rightarrow> real \<Rightarrow> candle" where
  "flat_candle t c =
     \<lparr>timestamp = t, open_price = c, high = c, low = c, close = c, volume = 1\<rparr>"

definition rising3 :: "candle list" where
  "rising3 = [flat_candle 0 10, flat_candle 1 11, flat_candle 2 12]"

definition buy_first_sell_last :: "nat \<Rightarrow> candle list \<Rightarrow> string" where
  "buy_first_sell_last n h =
     (if length h = 1 then ''BUY'' else if length h = n then ''SELL'' else ''HOLD'')"

definition falling4 :: "candle list" where
  "falling4 = [flat_candle 0 10, flat_candle 1 12, flat_candle 2 6, flat_candle 3 3]"

definition buy_sell_buy :: "candle list \<Rightarrow> string" where
  "buy_sell_buy h =
     (if length h = 1 then ''BUY'' else if length h = 2 then ''SELL''
      else if length h = 3 then ''BUY'' else ''HOLD'')"

definition always_hold :: "candle list \<Rightarrow> string" where
  "always_hold h = ''HOLD''"

section \<open>Risk manager: properties\<close>

lemma risk_step_current_loss: "current_loss s \<le> current_loss (risk_step s x)"
  by (cases x)
     (auto simp: add_position_def close_position_def py_div_def Let_def
           split: option.splits sum.splits if_splits)

lemma risk_trace_length: "length (risk_trace s xs) = Suc (length xs)"
  by (induction xs arbitrary: s) auto

lemma risk_trace_Suc:
  "i < length xs \<Longrightarrow> risk_trace s xs ! Suc i = risk_step (risk_trace s xs ! i) (xs ! i)"
proof (induction xs arbitrary: s i)
  case Nil
  then show ?case by simp
next
  case (Cons x xs)
  show ?case
  proof (cases i)
    case 0
    then show ?thesis by (cases xs) auto
  next
    case (Suc j)
    with Cons show ?thesis by simp
  qed
qed

text \<open>
  C5. For a strictly positive stop_loss_pct the call returns
  min(balance * risk_per_trade / stop_loss_pct, balance * max_position_size), which
  is at most balance * max_position_size; with the constructor's defaults,
  balance 10000, risk_per_trade 0.02 and stop_loss_pct 0.02 give 1000.
\<close>

theorem calculate_position_size_capped:
  "(0 < sl \<longrightarrow>
      calculate_position_size s b r sl = Inr (min (b * r / sl) (b * max_position_size s))
      \<and> min (b * r / sl) (b * max_position_size s) \<le> b * max_position_size s)
   \<and> calculate_position_size risk_manager_default 10000 (2 / 100) (2 / 100) = Inr 1000"
  by (simp add: calculate_position_size_def py_div_def risk_manager_default_def
        risk_manager_init_def)

theorem calculate_position_size_capped_witness:
  "(0::real) < 1 / 2
   \<and> calculate_position_size (risk_manager_init (5 / 100) (1 / 4) 1) 100 (1 / 10) (1 / 2)
       = Inr 20"
  using calculate_position_size_capped
    [of "1 / 2" "risk_manager_init (5 / 100) (1 / 4) 1" 100 "1 / 10"]
  by (simp add: risk_manager_init_def)

text \<open>
  C6. Closing a symbol that has no open position returns the empty result, raises
  nothing, and returns the state it was given: loss accumulator, position table
  and limits are all unchanged.
\<close>

theorem close_position_absent:
  "positions s smb = None \<Longrightarrow> close_position s smb exit_price = Inr (None, s)"
  by (simp add: close_position_def)

theorem close_position_absent_witness:
  "positions (add_position risk_manager_default ''BTCUSDT'' 100 2 95) ''ETHUSDT'' = None
   \<and> close_position (add_position risk_manager_default ''BTCUSDT'' 100 2 95) ''ETHUSDT'' 50
       = Inr (None, add_position risk_manager_default ''BTCUSDT'' 100 2 95)"
proof -
  have h: "positions (add_position risk_manager_default ''BTCUSDT'' 100 2 95) ''ETHUSDT'' = None"
    by (simp add: add_position_def risk_manager_default_def risk_manager_init_def)
  show ?thesis using h close_position_absent [OF h, of 50] by simp
qed

text \<open>
  C7. Under every sequence of calls of the six operations, the loss accumulator
  after each call is at least what it was before that call; hence it never falls
  below any earlier value, and no call resets it.
\<close>

theorem current_loss_monotone:
  "i < length xs \<Longrightarrow>
     current_loss (risk_trace s xs ! i) \<le> current_loss (risk_trace s xs ! Suc i)"
  by (simp add: risk_trace_Suc risk_step_current_loss)

theorem current_loss_monotone_witness:
  "(1::nat) < length [Add_position ''BTCUSDT'' 100 2 95, Close_position ''BTCUSDT'' 90,
                      Can_open_position ''BTCUSDT'' 1 1000]
   \<and> current_loss (risk_trace risk_manager_default
        [Add_position ''BTCUSDT'' 100 2 95, Close_position ''BTCUSDT'' 90,
         Can_open_position ''BTCUSDT'' 1 1000] ! 1) = 0
   \<and> current_loss (risk_trace risk_manager_default
        [Add_position ''BTCUSDT'' 100 2 95, Close_position ''BTCUSDT'' 90,
         Can_open_position ''BTCUSDT'' 1 1000] ! Suc 1) = 20"
  using current_loss_monotone [of 1 "[Add_position ''BTCUSDT'' 100 2 95,
      Close_position ''BTCUSDT'' 90, Can_open_position ''BTCUSDT'' 1 1000]"
      risk_manager_default]
  by (simp add: add_position_def close_position_def py_div_def
        risk_manager_default_def risk_manager_init_def)

text \<open>
  C10. The answer of can_open_position is a function of the proposed size, the
  balance, the loss accumulator and the two limits: two calls that agree on these
  agree on the answer, whatever the symbols and whatever the position tables hold.
\<close>

theorem can_open_position_depends_only_on:
  "current_loss s1 = current_loss s2 \<Longrightarrow>
   max_daily_loss s1 = max_daily_loss s2 \<Longrightarrow>
   max_position_size s1 = max_position_size s2 \<Longrightarrow>
   can_open_position s1 sym1 position_size account_balance
     = can_open_position s2 sym2 position_size account_balance"
  by (simp add: can_open_position_def)

theorem can_open_position_depends_only_on_witness:
  "current_loss (add_position risk_manager_default ''BTCUSDT'' 100 2 95)
     = current_loss risk_manager_default
   \<and> max_daily_loss (add_position risk_manager_default ''BTCUSDT'' 100 2 95)
     = max_daily_loss risk_manager_default
   \<and> max_position_size (add_position risk_manager_default ''BTCUSDT'' 100 2 95)
     = max_position_size risk_manager_default
   \<and> can_open_position (add_position risk_manager_default ''BTCUSDT'' 100 2 95)
       ''BTCUSDT'' 50 1000
   \<and> can_open_position risk_manager_default ''ETHUSDT'' 50 1000"
  using can_open_position_depends_only_on
    [of "add_position risk_manager_default ''BTCUSDT'' 100 2 95" risk_manager_default
        "''BTCUSDT''" 50 1000 "''ETHUSDT''"]
  by (simp add: add_position_def can_open_position_def
        risk_manager_default_def risk_manager_init_def)

section \<open>Backtest engine: properties\<close>

lemma backtest_loop_append:
  "backtest_loop df f idx (xs @ ys) st =
     (case backtest_loop df f idx xs st of
        Inl e \<Rightarrow> Inl e
      | Inr st' \<Rightarrow> backtest_loop df f (idx + length xs) ys st')"
  by (induction xs arbitrary: idx st) (auto split: sum.splits)

lemma bt_step_balance:
  "bt_step df f idx row (b, pos, ts) = Inr (b', pos', ts') \<Longrightarrow>
     b' - sum_list ts' = b - sum_list ts"
  by (auto simp: bt_step_def Let_def split: if_splits sum.splits option.splits)

lemma backtest_loop_balance:
  "backtest_loop df f idx rows (b, pos, ts) = Inr (b', pos', ts') \<Longrightarrow>
     b' - sum_list ts' = b - sum_list ts"
proof (induction rows arbitrary: idx b pos ts)
  case Nil
  then show ?case by simp
next
  case (Cons row rows)
  from Cons.prems obtain b1 pos1 ts1 where
    step: "bt_step df f idx row (b, pos, ts) = Inr (b1, pos1, ts1)" and
    rest: "backtest_loop df f (Suc idx) rows (b1, pos1, ts1) = Inr (b', pos', ts')"
    by (auto split: sum.splits)
  from Cons.IH [OF rest] bt_step_balance [OF step] show ?case by simp
qed

lemma bt_step_no_sell:
  "f (take (Suc idx) df) \<noteq> ''SELL'' \<Longrightarrow>
     bt_step df f idx row (b, Some p, ts) = Inr (b, Some p, ts)"
  by (simp add: bt_step_def)

lemma backtest_loop_no_sell:
  "\<forall>j<length rows. f (take (Suc (idx + j)) df) \<noteq> ''SELL'' \<Longrightarrow>
     backtest_loop df f idx rows (b, Some p, ts) = Inr (b, Some p, ts)"
proof (induction rows arbitrary: idx)
  case Nil
  then show ?case by simp
next
  case (Cons row rows)
  from Cons.prems have here: "f (take (Suc idx) df) \<noteq> ''SELL''"
    by force
  from Cons.prems have later: "\<forall>j<length rows. f (take (Suc (Suc idx + j)) df) \<noteq> ''SELL''"
    by force
  show ?case
    using here Cons.IH [OF later] by (simp add: bt_step_no_sell)
qed

lemma bt_step_hold:
  "f (take (Suc idx) df) = ''HOLD'' \<Longrightarrow> bt_step df f idx row st = Inr st"
  by (cases st) (simp add: bt_step_def split: option.splits)

lemma backtest_loop_hold:
  "\<forall>j<length rows. f (take (Suc (idx + j)) df) = ''HOLD'' \<Longrightarrow>
     backtest_loop df f idx rows st = Inr st"
proof (induction rows arbitrary: idx)
  case Nil
  then show ?case by simp
next
  case (Cons row rows)
  from Cons.prems have here: "f (take (Suc idx) df) = ''HOLD''"
    by force
  from Cons.prems have later: "\<forall>j<length rows. f (take (Suc (Suc idx + j)) df) = ''HOLD''"
    by force
  show ?case
    using here Cons.IH [OF later] by (simp add: bt_step_hold)
qed

lemma win_rate_of_total: "win_rate_of ts = Inr (if ts = [] then 0 else real (length (filter (\<lambda>t. 0 < t) ts)) / real (length ts))"
  by (simp add: win_rate_of_def py_div_def)

lemma run_backtest_of_loop:
  "backtest_loop df f 0 df (C, None, []) = Inr (b, pos, ts) \<Longrightarrow>
   run_backtest C df f =
     (if C = 0 then Inl ZeroDivisionError
      else Inr \<lparr>final_balance = C + sum_list ts, total_return = sum_list ts / C * 100,
                trades = length ts,
                win_rate = (if ts = [] then 0
                            else real (length (filter (\<lambda>t. 0 < t) ts)) / real (length ts))\<rparr>)"
proof -
  assume loop: "backtest_loop df f 0 df (C, None, []) = Inr (b, pos, ts)"
  from backtest_loop_balance [OF loop] have b: "b = C + sum_list ts" by simp
  show ?thesis
    by (simp add: run_backtest_def loop b win_rate_of_total py_div_def)
qed

text \<open>
  C2. On a frame of at least two candles whose closes are positive and strictly
  increasing, with a positive initial capital and a strategy that answers BUY at
  step 0, SELL at the last step and HOLD in between, run_backtest returns a report
  whose total_return is strictly positive.
\<close>

theorem run_backtest_buy_and_hold_gain:
  assumes len: "2 \<le> length df"
    and inc: "sorted_wrt (<) (map close df)"
    and pos: "\<forall>c\<in>set df. 0 < close c"
    and cap: "0 < C"
    and sig: "\<forall>i<length df. f (take (Suc i) df) =
               (if i = 0 then ''BUY'' else if i = length df - 1 then ''SELL'' else ''HOLD'')"
  shows "\<exists>r. run_backtest C df f = Inr r \<and> 0 < total_return r"
proof -
  from len obtain c0 rest where df: "df = c0 # rest"
    by (cases df) auto
  with len have "rest \<noteq> []" by auto
  then obtain mid cl where rest: "rest = mid @ [cl]"
    by (cases rest rule: rev_cases) auto
  have n: "length df = Suc (Suc (length mid))" by (simp add: df rest)
  have c0: "0 < close c0" using pos by (simp add: df)
  have lt: "close c0 < close cl" using inc by (simp add: df rest)
  have s0: "f (take (Suc 0) df) = ''BUY''" using sig n by force
  have sl: "f (take (Suc (Suc (length mid))) df) = ''SELL''"
    using sig [rule_format, of "Suc (length mid)"] n by simp
  have sm: "\<forall>j<length mid. f (take (Suc (Suc 0 + j)) df) = ''HOLD''"
  proof (intro allI impI)
    fix j assume "j < length mid"
    then show "f (take (Suc (Suc 0 + j)) df) = ''HOLD''"
      using sig [rule_format, of "Suc j"] n by simp
  qed
  let ?p = "\<lparr>entry = close c0, size_pos = C / close c0\<rparr>"
  let ?pnl = "(close cl - close c0) * (C / close c0)"
  have step0: "bt_step df f 0 c0 (C, None, []) = Inr (C, Some ?p, [])"
    using c0 s0 by (simp add: bt_step_def py_div_def)
  have stepl: "bt_step df f (Suc (length mid)) cl (C, Some ?p, []) = Inr (C + ?pnl, None, [?pnl])"
    using sl by (simp add: bt_step_def Let_def)
  have loop: "backtest_loop df f 0 df (C, None, []) = Inr (C + ?pnl, None, [?pnl])"
    unfolding df rest
    using step0 stepl backtest_loop_hold [OF sm, of "(C, Some ?p, [])"]
    by (simp add: backtest_loop_append df rest)
  from run_backtest_of_loop [OF loop] cap lt c0 show ?thesis
    by (simp add: zero_less_divide_iff)
qed

theorem run_backtest_buy_and_hold_gain_witness:
  "2 \<le> length rising3
   \<and> sorted_wrt (<) (map close rising3)
   \<and> list_all (\<lambda>c. 0 < close c) rising3
   \<and> (0::real) < 1000
   \<and> map (\<lambda>i. buy_first_sell_last 3 (take (Suc i) rising3)) [0, 1, 2]
       = [''BUY'', ''HOLD'', ''SELL'']
   \<and> (\<exists>r. run_backtest 1000 rising3 (buy_first_sell_last 3) = Inr r \<and> 0 < total_return r)"
proof -
  have h1: "2 \<le> length rising3" by (simp add: rising3_def)
  have h2: "sorted_wrt (<) (map close rising3)" by (simp add: rising3_def flat_candle_def)
  have h3: "\<forall>c\<in>set rising3. 0 < close c" by (simp add: rising3_def flat_candle_def)
  have h4: "(0::real) < 1000" by simp
  have h5: "\<forall>i<length rising3. buy_first_sell_last 3 (take (Suc i) rising3) =
         (if i = 0 then ''BUY'' else if i = length rising3 - 1 then ''SELL'' else ''HOLD'')"
    by (simp add: rising3_def buy_first_sell_last_def less_Suc_eq numeral_3_eq_3)
  have h6: "map (\<lambda>i. buy_first_sell_last 3 (take (Suc i) rising3)) [0, 1, 2]
       = [''BUY'', ''HOLD'', ''SELL'']"
    by (simp add: rising3_def buy_first_sell_last_def)
  from h3 have h7: "list_all (\<lambda>c. 0 < close c) rising3"
    by (simp add: list_all_iff)
  from run_backtest_buy_and_hold_gain [OF h1 h2 h3 h4 h5] h1 h2 h7 h4 h6
  show ?thesis by blast
qed

text \<open>
  C8. A position that is open after the first k steps and meets no SELL afterwards
  is still open when the loop ends, and the run does not liquidate it: the final
  state is the one reached after step k, whatever the later closes are; the balance
  is the initial capital plus the sum of the logged pnls of the closed trades; and
  the report (final balance, return, trade count, win rate) is computed from that
  log alone. With k the length of the frame this is every run that ends with an
  open position. An initial capital of zero makes the return's division raise.
\<close>

theorem run_backtest_open_position_not_liquidated:
  assumes prefix: "backtest_loop df f 0 (take k df) (C, None, []) = Inr (b, Some p, ts)"
    and nosell: "\<forall>i. k \<le> i \<and> i < length df \<longrightarrow> f (take (Suc i) df) \<noteq> ''SELL''"
  shows "backtest_loop df f 0 df (C, None, []) = Inr (b, Some p, ts)
         \<and> b = C + sum_list ts
         \<and> run_backtest C df f =
             (if C = 0 then Inl ZeroDivisionError
              else Inr \<lparr>final_balance = C + sum_list ts,
                        total_return = sum_list ts / C * 100,
                        trades = length ts,
                        win_rate = (if ts = [] then 0
                                    else real (length (filter (\<lambda>t. 0 < t) ts))
                                         / real (length ts))\<rparr>)"
proof -
  have later: "\<forall>j<length (drop k df). f (take (Suc (length (take k df) + j)) df) \<noteq> ''SELL''"
  proof (intro allI impI)
    fix j assume j: "j < length (drop k df)"
    then have "k \<le> length (take k df) + j \<and> length (take k df) + j < length df"
      by (auto simp: min_def)
    with nosell show "f (take (Suc (length (take k df) + j)) df) \<noteq> ''SELL''"
      by blast
  qed
  have "backtest_loop df f 0 (take k df @ drop k df) (C, None, []) = Inr (b, Some p, ts)"
    unfolding backtest_loop_append
    using prefix backtest_loop_no_sell [OF later, of b p ts] by simp
  then have loop: "backtest_loop df f 0 df (C, None, []) = Inr (b, Some p, ts)"
    by simp
  from backtest_loop_balance [OF loop] have "b = C + sum_list ts" by simp
  with loop run_backtest_of_loop [OF loop] show ?thesis by simp
qed

theorem run_backtest_open_position_not_liquidated_witness:
  "backtest_loop falling4 buy_sell_buy 0 (take 3 falling4) (100, None, [])
     = Inr (120, Some \<lparr>entry = 6, size_pos = 20\<rparr>, [20])
   \<and> length falling4 = 4
   \<and> buy_sell_buy (take (Suc 3) falling4) = ''HOLD''
   \<and> run_backtest 100 falling4 buy_sell_buy
       = Inr \<lparr>final_balance = 120, total_return = 20, trades = 1, win_rate = 1\<rparr>"
proof -
  have h1: "backtest_loop falling4 buy_sell_buy 0 (take 3 falling4) (100, None, [])
     = Inr (120, Some \<lparr>entry = 6, size_pos = 20\<rparr>, [20])"
    by (simp add: falling4_def flat_candle_def buy_sell_buy_def bt_step_def py_div_def
          Let_def numeral_3_eq_3)
  have h2: "\<forall>i. 3 \<le> i \<and> i < length falling4 \<longrightarrow> buy_sell_buy (take (Suc i) falling4) \<noteq> ''SELL''"
    by (simp add: falling4_def buy_sell_buy_def)
  have h3: "length falling4 = 4"
    by (simp add: falling4_def)
  have h4: "buy_sell_buy (take (Suc 3) falling4) = ''HOLD''"
    by (simp add: falling4_def buy_sell_buy_def)
  have r: "run_backtest 100 falling4 buy_sell_buy
       = Inr \<lparr>final_balance = 120, total_return = 20, trades = 1, win_rate = 1\<rparr>"
    using run_backtest_open_position_not_liquidated [OF h1 h2] by simp
  from h1 h3 h4 r show ?thesis by blast
qed

text \<open>
  C9. The win-rate expression never raises, whatever the trade list; a run that
  closes no trade and has a non-zero initial capital returns a report with trade
  count 0 and win rate 0; and every report with trade count 0 has win rate 0.
\<close>

theorem run_backtest_win_rate_no_trades:
  "(\<exists>w. win_rate_of ts = Inr w)
   \<and> (backtest_loop df f 0 df (C, None, []) = Inr (b, pos, []) \<and> C \<noteq> 0 \<longrightarrow>
        run_backtest C df f
          = Inr \<lparr>final_balance = C, total_return = 0, trades = 0, win_rate = 0\<rparr>)
   \<and> (run_backtest C df f = Inr r \<and> trades r = 0 \<longrightarrow> win_rate r = 0)"
proof (intro conjI impI)
  show "\<exists>w. win_rate_of ts = Inr w" by (simp add: win_rate_of_total)
next
  assume "backtest_loop df f 0 df (C, None, []) = Inr (b, pos, []) \<and> C \<noteq> 0"
  then show "run_backtest C df f
          = Inr \<lparr>final_balance = C, total_return = 0, trades = 0, win_rate = 0\<rparr>"
    using run_backtest_of_loop [of df f C b pos "[]"] by simp
next
  assume a: "run_backtest C df f = Inr r \<and> trades r = 0"
  then obtain b' pos' ts' where
    loop: "backtest_loop df f 0 df (C, None, []) = Inr (b', pos', ts')"
    by (auto simp: run_backtest_def split: sum.splits)
  from a run_backtest_of_loop [OF loop] show "win_rate r = 0"
    by (auto split: if_splits)
qed

theorem run_backtest_win_rate_no_trades_witness:
  "backtest_loop rising3 always_hold 0 rising3 (100, None, []) = Inr (100, None, [])
   \<and> (100::real) \<noteq> 0
   \<and> run_backtest 100 rising3 always_hold
       = Inr \<lparr>final_balance = 100, total_return = 0, trades = 0, win_rate = 0\<rparr>
   \<and> trades \<lparr>final_balance = 100, total_return = 0, trades = 0, win_rate = 0\<rparr> = 0
   \<and> win_rate \<lparr>final_balance = 100, total_return = 0, trades = 0, win_rate = 0\<rparr> = 0"
proof -
  have h1: "backtest_loop rising3 always_hold 0 rising3 (100, None, []) = Inr (100, None, [])"
    by (simp add: rising3_def always_hold_def bt_step_def)
  have h2: "(100::real) \<noteq> 0" by simp
  from run_backtest_win_rate_no_trades [of "[]" rising3 always_hold 100 100 None
      "\<lparr>final_balance = 100, total_return = 0, trades = 0, win_rate = 0\<rparr>"] h1 h2
  show ?thesis by simp
qed

section \<open>Indicators: properties\<close>

lemma series_diff_length: "length (series_diff prices) = length prices"
  by (cases prices) auto

lemma series_diff_elem: "x \<in> set (series_diff prices) \<Longrightarrow> x = NaN \<or> (\<exists>d. x = Fin d)"
  by (cases prices) auto

lemma gain_raw_length: "length (gain_raw prices) = length prices"
  by (simp add: gain_raw_def series_diff_length)

lemma loss_raw_length: "length (loss_raw prices) = length prices"
  by (simp add: loss_raw_def series_diff_length)

lemma gain_raw_elem: "x \<in> set (gain_raw prices) \<Longrightarrow> \<exists>r\<ge>0. x = Fin r"
  using series_diff_elem [of _ prices]
  by (fastforce simp: gain_raw_def np_gt_def split: if_splits)


lemma np_sum_nonneg: "(\<And>x. x \<in> set xs \<Longrightarrow> \<exists>r\<ge>0. x = Fin r) \<Longrightarrow> \<exists>s\<ge>0. np_sum xs = Fin s"
proof (induction xs)
  case Nil
  then show ?case by simp
next
  case (Cons x xs)
  then obtain r s where "x = Fin r" "0 \<le> r" "np_sum xs = Fin s" "0 \<le> s"
    by (metis list.set_intros(1) list.set_intros(2))
  then show ?case by simp
qed

lemma rolling_mean_length: "length (rolling_mean w xs) = length xs"
  by (simp add: rolling_mean_def)


lemma rolling_mean_not_ready:
  "i < length xs \<Longrightarrow> \<not> (0 < w \<and> w \<le> i + 1) \<Longrightarrow> rolling_mean w xs ! i = NaN"
  by (auto simp: rolling_mean_def)

lemma rolling_mean_nonneg:
  assumes elems: "\<And>x. x \<in> set xs \<Longrightarrow> \<exists>r\<ge>0. x = Fin r"
    and i: "i < length xs" and w: "0 < w" "w \<le> i + 1"
  shows "\<exists>m\<ge>0. rolling_mean w xs ! i = Fin m"
proof -
  have "\<And>x. x \<in> set (take w (drop (i + 1 - w) xs)) \<Longrightarrow> \<exists>r\<ge>0. x = Fin r"
    using elems by (meson in_set_dropD in_set_takeD)
  then obtain s where s: "np_sum (take w (drop (i + 1 - w) xs)) = Fin s" "0 \<le> s"
    using np_sum_nonneg by blast
  with i w show ?thesis by (simp add: rolling_mean_def)
qed

lemma rsi_gain_defined:
  "i < length prices \<Longrightarrow> 0 < w \<Longrightarrow> w \<le> i + 1 \<Longrightarrow> \<exists>g\<ge>0. rsi_gain prices w ! i = Fin g"
  unfolding rsi_gain_def
  by (rule rolling_mean_nonneg) (auto simp: gain_raw_length dest: gain_raw_elem)


lemma rsi_gain_length: "length (rsi_gain prices w) = length prices"
  by (simp add: rsi_gain_def rolling_mean_length gain_raw_length)

lemma rsi_loss_length: "length (rsi_loss prices w) = length prices"
  by (simp add: rsi_loss_def rolling_mean_length loss_raw_length)


text \<open>The value of the result at one position, from the two rolling means there.\<close>

lemma calculate_rsi_nth:
  "0 \<le> period \<Longrightarrow> i < length prices \<Longrightarrow>
   \<exists>rsi. calculate_rsi prices period = Inr rsi \<and> length rsi = length prices \<and>
     rsi ! i = np_sub (Fin 100) (np_div (Fin 100) (np_add (Fin 1)
                 (np_div (rsi_gain prices (nat period) ! i) (rsi_loss prices (nat period) ! i))))"
  by (simp add: calculate_rsi_def Let_def rsi_gain_length rsi_loss_length)

lemma rsi_value_bounds:
  assumes "0 \<le> g" "0 < l"
  shows "np_sub (Fin 100) (np_div (Fin 100) (np_add (Fin 1) (np_div (Fin g) (Fin l))))
           = Fin (100 - 100 / (1 + g / l))"
    and "0 \<le> 100 - 100 / (1 + g / l)" and "100 - 100 / (1 + g / l) \<le> (100::real)"
proof -
  have q: "0 \<le> g / l" using assms by simp
  then have pos: "0 < 1 + g / l" by linarith
  show "np_sub (Fin 100) (np_div (Fin 100) (np_add (Fin 1) (np_div (Fin g) (Fin l))))
           = Fin (100 - 100 / (1 + g / l))"
    using assms pos by (simp add: np_sub_def)
  have "100 / (1 + g / l) \<le> 100 / 1"
    using q by (intro divide_left_mono) auto
  then show "0 \<le> 100 - 100 / (1 + g / l)" by simp
  have "0 \<le> 100 / (1 + g / l)" using pos by simp
  then show "100 - 100 / (1 + g / l) \<le> (100::real)" by simp
qed

text \<open>
  C1. At every position where both rolling means are defined and the mean loss is
  strictly positive, calculate_rsi returns normally and its value there is a
  number between 0 and 100.
\<close>

theorem calculate_rsi_bounded:
  assumes i: "i < length prices"
    and g: "rsi_gain prices (nat period) ! i = Fin g"
    and l: "rsi_loss prices (nat period) ! i = Fin l"
    and lpos: "0 < l"
  shows "\<exists>rsi r. calculate_rsi prices period = Inr rsi \<and> rsi ! i = Fin r \<and> 0 \<le> r \<and> r \<le> 100"
proof -
  have w: "0 < nat period \<and> nat period \<le> i + 1"
  proof (rule ccontr)
    assume not_ready: "\<not> (0 < nat period \<and> nat period \<le> i + 1)"
    have "i < length (gain_raw prices)" using i by (simp only: gain_raw_length)
    from rolling_mean_not_ready [OF this not_ready]
    have "rolling_mean (nat period) (gain_raw prices) ! i = NaN" .
    with g show False by (simp add: rsi_gain_def)
  qed
  then have w1: "0 < nat period" and w2: "nat period \<le> i + 1" by simp_all
  from w1 have p: "0 \<le> period" by simp
  from rsi_gain_defined [OF i w1 w2] obtain g' where
    "rsi_gain prices (nat period) ! i = Fin g'" and "0 \<le> g'" by blast
  with g have gnn: "0 \<le> g" by simp
  from calculate_rsi_nth [OF p i] obtain rsi where
    rsi: "calculate_rsi prices period = Inr rsi" and
    val: "rsi ! i = np_sub (Fin 100) (np_div (Fin 100) (np_add (Fin 1)
                 (np_div (rsi_gain prices (nat period) ! i) (rsi_loss prices (nat period) ! i))))"
    by blast
  have "rsi ! i = Fin (100 - 100 / (1 + g / l))"
    unfolding val g l by (rule rsi_value_bounds(1) [OF gnn lpos])
  moreover note rsi rsi_value_bounds(2) [OF gnn lpos] rsi_value_bounds(3) [OF gnn lpos]
  ultimately show ?thesis by blast
qed

theorem calculate_rsi_bounded_witness:
  "(2::nat) < length [1, 3, 2 :: real]
   \<and> rsi_gain [1, 3, 2] (nat 2) ! 2 = Fin 1
   \<and> rsi_loss [1, 3, 2] (nat 2) ! 2 = Fin (1 / 2)
   \<and> (0::real) < 1 / 2
   \<and> calculate_rsi [1, 3, 2] 2 = Inr [NaN, Fin 100, Fin (200 / 3)]"
proof -
  have h1: "(2::nat) < length [1, 3, 2 :: real]" by simp
  have h2: "rsi_gain [1, 3, 2] (nat 2) ! 2 = Fin 1"
    by code_simp
  have h3: "rsi_loss [1, 3, 2] (nat 2) ! 2 = Fin (1 / 2)"
    by code_simp
  have h4: "(0::real) < 1 / 2" by simp
  have v: "calculate_rsi [1, 3, 2] 2 = Inr [NaN, Fin 100, Fin (200 / 3)]"
    by code_simp
  from calculate_rsi_bounded [OF h1 h2 h3 h4] h1 h2 h3 h4 v show ?thesis by blast
qed







lemma fold_sr_step:
  "fold (sr_step prices w) js (support, resistance) =
     (support @ map (\<lambda>i. (i, prices ! i))
        (filter (\<lambda>i. np_eq (Fin (prices ! i)) (series_min (take (2 * w) (drop (i - w) prices)))) js),
      resistance @ map (\<lambda>i. (i, prices ! i))
        (filter (\<lambda>i. np_eq (Fin (prices ! i)) (series_max (take (2 * w) (drop (i - w) prices)))) js))"
  by (induction js arbitrary: support resistance) (simp_all add: sr_step_def Let_def)

lemma series_min_Min:
  assumes "xs \<noteq> []"
  shows "series_min xs = Fin (Min (set xs))"
proof (cases xs)
  case Nil
  with assms show ?thesis by simp
next
  case (Cons a list)
  show ?thesis unfolding Cons by (simp only: series_min.simps Min.set_eq_fold)
qed

lemma series_max_Max:
  assumes "xs \<noteq> []"
  shows "series_max xs = Fin (Max (set xs))"
proof (cases xs)
  case Nil
  with assms show ?thesis by simp
next
  case (Cons a list)
  show ?thesis unfolding Cons by (simp only: series_max.simps Max.set_eq_fold)
qed

lemma slice_set:
  assumes "k + n \<le> length xs"
  shows "set (take n (drop k xs)) = {xs ! j | j. k \<le> j \<and> j < k + n}"
proof -
  have "take n (drop k xs) = map ((!) xs) [k..<k + n]"
    using assms by (auto intro!: nth_equalityI)
  then show ?thesis by auto
qed

lemma slice_min_iff:
  assumes w: "0 < w" "w \<le> i" "i + w < length prices"
  shows "np_eq (Fin (prices ! i)) (series_min (take (2 * w) (drop (i - w) prices)))
         = (\<forall>j. i - w \<le> j \<and> j < i + w \<longrightarrow> prices ! i \<le> prices ! j)"
proof -
  let ?sl = "take (2 * w) (drop (i - w) prices)"
  have bound: "(i - w) + 2 * w \<le> length prices" using w by simp
  have S: "set ?sl = {prices ! j | j. i - w \<le> j \<and> j < i + w}"
    using slice_set [OF bound] w by (simp add: mult_2)
  have ne: "?sl \<noteq> []" using w by simp
  have mem: "prices ! i \<in> set ?sl" unfolding S using w by auto
  have "np_eq (Fin (prices ! i)) (series_min ?sl) = (prices ! i = Min (set ?sl))"
    by (simp add: series_min_Min [OF ne])
  also have "\<dots> = (\<forall>a\<in>set ?sl. prices ! i \<le> a)"
    using mem ne by (auto simp: eq_Min_iff)
  also have "\<dots> = (\<forall>j. i - w \<le> j \<and> j < i + w \<longrightarrow> prices ! i \<le> prices ! j)"
    unfolding S by auto
  finally show ?thesis .
qed

lemma slice_max_iff:
  assumes w: "0 < w" "w \<le> i" "i + w < length prices"
  shows "np_eq (Fin (prices ! i)) (series_max (take (2 * w) (drop (i - w) prices)))
         = (\<forall>j. i - w \<le> j \<and> j < i + w \<longrightarrow> prices ! j \<le> prices ! i)"
proof -
  let ?sl = "take (2 * w) (drop (i - w) prices)"
  have bound: "(i - w) + 2 * w \<le> length prices" using w by simp
  have S: "set ?sl = {prices ! j | j. i - w \<le> j \<and> j < i + w}"
    using slice_set [OF bound] w by (simp add: mult_2)
  have ne: "?sl \<noteq> []" using w by simp
  have mem: "prices ! i \<in> set ?sl" unfolding S using w by auto
  have "np_eq (Fin (prices ! i)) (series_max ?sl) = (prices ! i = Max (set ?sl))"
    by (simp add: series_max_Max [OF ne])
  also have "\<dots> = (\<forall>a\<in>set ?sl. a \<le> prices ! i)"
    using mem ne by (auto simp: eq_Max_iff)
  also have "\<dots> = (\<forall>j. i - w \<le> j \<and> j < i + w \<longrightarrow> prices ! j \<le> prices ! i)"
    unfolding S by auto
  finally show ?thesis .
qed

text \<open>
  What the code reports, for a positive window w: index i is in the support list
  (with its price) exactly when w \<le> i, i + w < len(prices) and prices[i] is no
  greater than any of the 2w values at positions i - w, ..., i + w - 1; the value at
  position i + w is never compared. The resistance list is the mirror image.
\<close>

lemma identify_support_resistance_reports:
  assumes "0 < window"
  shows "\<exists>support resistance.
           identify_support_resistance prices window = Inr (support, resistance)
           \<and> (\<forall>i p. ((i, p) \<in> set support) =
                 (nat window \<le> i \<and> i + nat window < length prices \<and> p = prices ! i
                  \<and> (\<forall>j. i - nat window \<le> j \<and> j < i + nat window \<longrightarrow> prices ! i \<le> prices ! j)))
           \<and> (\<forall>i p. ((i, p) \<in> set resistance) =
                 (nat window \<le> i \<and> i + nat window < length prices \<and> p = prices ! i
                  \<and> (\<forall>j. i - nat window \<le> j \<and> j < i + nat window \<longrightarrow> prices ! j \<le> prices ! i)))"
proof -
  define w where "w = nat window"
  have w: "0 < w" using assms by (simp add: w_def)
  have run: "identify_support_resistance prices window =
     Inr (map (\<lambda>i. (i, prices ! i))
            (filter (\<lambda>i. np_eq (Fin (prices ! i)) (series_min (take (2 * w) (drop (i - w) prices))))
               [w..<length prices - w]),
          map (\<lambda>i. (i, prices ! i))
            (filter (\<lambda>i. np_eq (Fin (prices ! i)) (series_max (take (2 * w) (drop (i - w) prices))))
               [w..<length prices - w]))"
    using assms by (simp add: identify_support_resistance_def fold_sr_step w_def)
  have rng: "\<And>i. (i \<in> set [w..<length prices - w]) = (w \<le> i \<and> i + w < length prices)"
    by auto
  show ?thesis
    unfolding run w_def [symmetric]
    apply (intro exI conjI)
      apply (rule refl)
    subgoal using slice_min_iff [OF w] by (auto simp: rng)
    subgoal using slice_max_iff [OF w] by (auto simp: rng)
    done
qed






end
